theory Spec2Isabelle
  imports Main "HOL-Library.Word"
begin

section \<open>JavaScript values\<close>

text \<open>
  The handler of \<^verbatim>\<open>sw.js\<close> is dynamically typed: what \<^verbatim>\<open>event.data.json()\<close> returns
  is whatever JavaScript value the payload denotes. A number is an IEEE double, kept as
  its 64 bits: the handler never computes with one. A string is a \<open>string\<close>; the
  handler never looks inside one either. An object is the list of its own properties;
  a property is read with \<open>map_of\<close>.
\<close>

type_synonym number = "64 word"

datatype jsval =
    JUndefined
  | JNull
  | JBool bool
  | JNum number
  | JStr string
  | JArr "jsval list"
  | JObj "(string \<times> jsval) list"

text \<open>
  The two exceptions the handler can meet: \<^verbatim>\<open>json()\<close> throws a SyntaxError on text that
  is not JSON, and reading a property of \<^verbatim>\<open>null\<close> or \<^verbatim>\<open>undefined\<close> throws a TypeError.
\<close>

datatype js_error = SyntaxError | TypeError

text \<open>
  The property read \<^verbatim>\<open>v.k\<close>, for the two names the handler reads, \<^verbatim>\<open>title\<close> and
  \<^verbatim>\<open>body\<close>. No prototype of a boolean, number, string, array or plain object defines
  either name, so the read yields the object's own property, and \<^verbatim>\<open>undefined\<close> where
  there is none.
\<close>

fun get_property :: "jsval \<Rightarrow> string \<Rightarrow> js_error + jsval" where
  "get_property JUndefined k = Inl TypeError"
| "get_property JNull k = Inl TypeError"
| "get_property (JObj fs) k = Inr (case map_of fs k of None \<Rightarrow> JUndefined | Some v \<Rightarrow> v)"
| "get_property v k = Inr JUndefined"

section \<open>The host interface\<close>

text \<open>
  \<^verbatim>\<open>event.data\<close> is \<^verbatim>\<open>null\<close> or a message-data object; of that object the handler
  uses the method \<^verbatim>\<open>json()\<close> alone, which returns the parsed payload or throws. The
  object is modelled by the outcome of that call. An event has more properties than
  \<^verbatim>\<open>data\<close>; they are the extension of the record.
\<close>

record pushMessageData =
  json :: "js_error + jsval"

record pushEvent =
  data :: "pushMessageData option"

text \<open>The object literal of lines 4 to 8.\<close>

record notificationOptions =
  body :: jsval
  icon :: string
  badge :: string

text \<open>
  The host is the log of the calls it has received, oldest first. A promise is known by
  the position in the log of the call that returned it.
\<close>

datatype promise = Promise nat

datatype host_call =
    ShowNotification jsval notificationOptions
  | WaitUntil promise

text \<open>
  \<^verbatim>\<open>self.registration.showNotification(title, options)\<close> returns a promise at once; a
  failure to display rejects that promise and is not thrown to the caller.
\<close>

definition showNotification ::
  "jsval \<Rightarrow> notificationOptions \<Rightarrow> host_call list \<Rightarrow> promise \<times> host_call list" where
  "showNotification title options tr =
     (Promise (length tr), tr @ [ShowNotification title options])"

text \<open>
  \<^verbatim>\<open>event.waitUntil(p)\<close>, called while the event is being dispatched, as the handler
  does.
\<close>

definition waitUntil :: "promise \<Rightarrow> host_call list \<Rightarrow> host_call list" where
  "waitUntil p tr = tr @ [WaitUntil p]"

section \<open>The push listener\<close>

text \<open>
  Line 3: \<^verbatim>\<open>const data = event.data ? event.data.json() : { title: ..., body: ... }\<close>.
  A message-data object is truthy and \<^verbatim>\<open>null\<close> is falsy.
\<close>

definition notification_data :: "'a pushEvent_scheme \<Rightarrow> js_error + jsval" where
  "notification_data event =
     (case data event of
        Some d \<Rightarrow> json d
      | None \<Rightarrow>
          Inr (JObj [(''title'', JStr ''Market Alert''),
                     (''body'', JStr ''New Signal Detected!'')]))"

text \<open>Lines 4 to 8: \<^verbatim>\<open>const options = { body: data.body, icon: ..., badge: ... }\<close>.\<close>

definition notification_options :: "jsval \<Rightarrow> js_error + notificationOptions" where
  "notification_options dat =
     (case get_property dat ''body'' of
        Inl e \<Rightarrow> Inl e
      | Inr b \<Rightarrow>
          Inr \<lparr>body = b,
               icon = ''https://cdn-icons-png.flaticon.com/512/2464/2464402.png'',
               badge = ''https://cdn-icons-png.flaticon.com/512/2464/2464402.png''\<rparr>)"

text \<open>
  The listener. It takes the host's log and returns what it threw, or \<open>Inr ()\<close> (the
  function has no \<^verbatim>\<open>return\<close>), with the log as it left it. In line 9 the argument
  \<^verbatim>\<open>data.title\<close> is read before \<^verbatim>\<open>showNotification\<close> is called, and that call is made
  before \<^verbatim>\<open>waitUntil\<close>.
\<close>

definition onPush ::
  "'a pushEvent_scheme \<Rightarrow> host_call list \<Rightarrow> (js_error + unit) \<times> host_call list" where
  "onPush event tr =
     (case notification_data event of
        Inl e \<Rightarrow> (Inl e, tr)
      | Inr dat \<Rightarrow>
          (case notification_options dat of
             Inl e \<Rightarrow> (Inl e, tr)
           | Inr options \<Rightarrow>
               (case get_property dat ''title'' of
                  Inl e \<Rightarrow> (Inl e, tr)
                | Inr title \<Rightarrow>
                    (case showNotification title options tr of
                       (p, tr1) \<Rightarrow> (Inr (), waitUntil p tr1)))))"

section \<open>Reading the log\<close>

text \<open>The display requests of a log, and the promises handed to \<^verbatim>\<open>waitUntil\<close>.\<close>

fun requests :: "host_call list \<Rightarrow> (jsval \<times> notificationOptions) list" where
  "requests [] = []"
| "requests (ShowNotification t opts # tr) = (t, opts) # requests tr"
| "requests (WaitUntil p # tr) = requests tr"

fun extensions :: "host_call list \<Rightarrow> promise list" where
  "extensions [] = []"
| "extensions (ShowNotification t opts # tr) = extensions tr"
| "extensions (WaitUntil p # tr) = p # extensions tr"

text \<open>
  What one run of the listener added to the log, and the values that are neither
  \<^verbatim>\<open>null\<close> nor \<^verbatim>\<open>undefined\<close>.
\<close>

definition issued :: "'a pushEvent_scheme \<Rightarrow> host_call list \<Rightarrow> host_call list" where
  "issued event tr = drop (length tr) (snd (onPush event tr))"

fun non_null :: "jsval \<Rightarrow> bool" where
  "non_null JUndefined = False"
| "non_null JNull = False"
| "non_null v = True"

text \<open>
  A derived value has a title and a body when both reads succeed and neither yields
  \<^verbatim>\<open>null\<close> or \<^verbatim>\<open>undefined\<close>.
\<close>

definition has_title_and_body :: "jsval \<Rightarrow> bool" where
  "has_title_and_body dat =
     (case get_property dat ''title'' of
        Inl e \<Rightarrow> False
      | Inr t \<Rightarrow>
          (case get_property dat ''body'' of
             Inl e \<Rightarrow> False
           | Inr b \<Rightarrow> non_null t \<and> non_null b))"

section \<open>The listener, step by step\<close>

lemma get_property_throws: "get_property v k = Inl e \<longleftrightarrow> e = TypeError \<and> \<not> non_null v"
  by (cases v) auto

lemma get_property_non_null: "non_null v \<Longrightarrow> \<exists>x. get_property v k = Inr x"
  by (cases v) auto

text \<open>The host calls inlined: the listener either throws with the log untouched, or adds
  one display request and one lifetime extension, in that order.\<close>

lemma onPush_unfold:
  "onPush event tr =
     (case notification_data event of
        Inl e \<Rightarrow> (Inl e, tr)
      | Inr dat \<Rightarrow>
          (case get_property dat ''body'' of
             Inl e \<Rightarrow> (Inl e, tr)
           | Inr b \<Rightarrow>
               (case get_property dat ''title'' of
                  Inl e \<Rightarrow> (Inl e, tr)
                | Inr t \<Rightarrow>
                    (Inr (),
                     tr @ [ShowNotification t
                             \<lparr>body = b,
                              icon = ''https://cdn-icons-png.flaticon.com/512/2464/2464402.png'',
                              badge = ''https://cdn-icons-png.flaticon.com/512/2464/2464402.png''\<rparr>,
                           WaitUntil (Promise (length tr))]))))"
  by (simp add: onPush_def notification_options_def showNotification_def waitUntil_def
      split: sum.split)

lemma onPush_extends_log: "snd (onPush event tr) = tr @ issued event tr"
  by (simp add: issued_def onPush_unfold split: sum.split)

lemma onPush_throw:
  "notification_data event = Inl e \<Longrightarrow> onPush event tr = (Inl e, tr)"
  by (simp add: onPush_unfold)

lemma onPush_null:
  "notification_data event = Inr dat \<Longrightarrow> \<not> non_null dat \<Longrightarrow>
   onPush event tr = (Inl TypeError, tr)"
  by (cases dat) (simp_all add: onPush_unfold)

lemma onPush_ok:
  "notification_data event = Inr dat \<Longrightarrow> get_property dat ''body'' = Inr b \<Longrightarrow>
   get_property dat ''title'' = Inr t \<Longrightarrow>
   onPush event tr =
     (Inr (),
      tr @ [ShowNotification t
              \<lparr>body = b,
               icon = ''https://cdn-icons-png.flaticon.com/512/2464/2464402.png'',
               badge = ''https://cdn-icons-png.flaticon.com/512/2464/2464402.png''\<rparr>,
            WaitUntil (Promise (length tr))])"
  by (simp add: onPush_unfold)

lemma issued_throw: "onPush event tr = (Inl e, tr) \<Longrightarrow> issued event tr = []"
  by (simp add: issued_def)

lemma issued_ok:
  "notification_data event = Inr dat \<Longrightarrow> get_property dat ''body'' = Inr b \<Longrightarrow>
   get_property dat ''title'' = Inr t \<Longrightarrow>
   issued event tr =
     [ShowNotification t
        \<lparr>body = b,
         icon = ''https://cdn-icons-png.flaticon.com/512/2464/2464402.png'',
         badge = ''https://cdn-icons-png.flaticon.com/512/2464/2464402.png''\<rparr>,
      WaitUntil (Promise (length tr))]"
  by (simp add: issued_def onPush_ok)

lemma issued_cases:
  "issued event tr = [] \<or>
   (\<exists>t b. issued event tr =
      [ShowNotification t
         \<lparr>body = b,
          icon = ''https://cdn-icons-png.flaticon.com/512/2464/2464402.png'',
          badge = ''https://cdn-icons-png.flaticon.com/512/2464/2464402.png''\<rparr>,
       WaitUntil (Promise (length tr))])"
  by (simp add: issued_def onPush_unfold split: sum.split)

lemma notification_data_no_payload:
  "data event = None \<Longrightarrow>
   notification_data event =
     Inr (JObj [(''title'', JStr ''Market Alert''), (''body'', JStr ''New Signal Detected!'')])"
  by (simp add: notification_data_def)

lemma notification_data_payload:
  "data event = Some d \<Longrightarrow> notification_data event = json d"
  by (simp add: notification_data_def)

section \<open>Payload with a title and a body\<close>

text \<open>
  Claim C1. When the payload of a push event parses to an object whose \<^verbatim>\<open>title\<close> is the
  string \<open>T\<close> and whose \<^verbatim>\<open>body\<close> is the string \<open>B\<close>, the listener completes and the one
  display request it issues carries the title \<open>T\<close> and options whose body is \<open>B\<close>.
\<close>

theorem onPush_payload_title_body:
  assumes "data event = Some d"
    and "json d = Inr (JObj fs)"
    and "map_of fs ''title'' = Some (JStr T)"
    and "map_of fs ''body'' = Some (JStr B)"
  shows "fst (onPush event tr) = Inr () \<and>
         map fst (requests (issued event tr)) = [JStr T] \<and>
         map (body \<circ> snd) (requests (issued event tr)) = [JStr B]"
proof -
  from assms(1,2) have dat: "notification_data event = Inr (JObj fs)"
    by (simp add: notification_data_payload)
  from assms(3) have t: "get_property (JObj fs) ''title'' = Inr (JStr T)" by simp
  from assms(4) have b: "get_property (JObj fs) ''body'' = Inr (JStr B)" by simp
  show ?thesis
    by (simp add: onPush_ok [OF dat b t] issued_ok [OF dat b t])
qed

theorem onPush_payload_title_body_witness:
  "fst (onPush \<lparr>data = Some \<lparr>json = Inr (JObj [(''title'', JStr ''BTC Alert''),
                                               (''body'', JStr ''Price crossed $50k'')])\<rparr>\<rparr> [])
     = Inr () \<and>
   map fst (requests (issued
     \<lparr>data = Some \<lparr>json = Inr (JObj [(''title'', JStr ''BTC Alert''),
                                    (''body'', JStr ''Price crossed $50k'')])\<rparr>\<rparr> []))
     = [JStr ''BTC Alert''] \<and>
   map (body \<circ> snd) (requests (issued
     \<lparr>data = Some \<lparr>json = Inr (JObj [(''title'', JStr ''BTC Alert''),
                                    (''body'', JStr ''Price crossed $50k'')])\<rparr>\<rparr> []))
     = [JStr ''Price crossed $50k'']"
  by (rule onPush_payload_title_body
        [where d = "\<lparr>json = Inr (JObj [(''title'', JStr ''BTC Alert''),
                                       (''body'', JStr ''Price crossed $50k'')])\<rparr>"
           and fs = "[(''title'', JStr ''BTC Alert''), (''body'', JStr ''Price crossed $50k'')]"])
     simp_all

section \<open>No payload\<close>

text \<open>
  Claim C2. When the push event carries no payload (\<^verbatim>\<open>event.data\<close> is \<^verbatim>\<open>null\<close>), the
  display request issued by the listener has the title \<^verbatim>\<open>Market Alert\<close> and the options
  body \<^verbatim>\<open>New Signal Detected!\<close>.
\<close>

theorem onPush_no_payload:
  assumes "data event = None"
  shows "fst (onPush event tr) = Inr () \<and>
         map fst (requests (issued event tr)) = [JStr ''Market Alert''] \<and>
         map (body \<circ> snd) (requests (issued event tr)) = [JStr ''New Signal Detected!'']"
proof -
  note dat = notification_data_no_payload [OF assms]
  show ?thesis
    by (simp add: onPush_ok [OF dat] issued_ok [OF dat])
qed

theorem onPush_no_payload_witness:
  "fst (onPush \<lparr>data = None\<rparr> []) = Inr () \<and>
   map fst (requests (issued \<lparr>data = None\<rparr> [])) = [JStr ''Market Alert''] \<and>
   map (body \<circ> snd) (requests (issued \<lparr>data = None\<rparr> [])) = [JStr ''New Signal Detected!'']"
  by (rule onPush_no_payload) simp

section \<open>Payload that is not JSON\<close>

text \<open>
  Claim C3. When the payload is present and \<^verbatim>\<open>json()\<close> throws, the listener throws the
  same error: the derived data is that error and not the default title and body, the log
  of the host is left as it was, and no display request is issued.
\<close>

theorem onPush_parse_failure:
  assumes "data event = Some d" and "json d = Inl e"
  shows "notification_data event = Inl e \<and> onPush event tr = (Inl e, tr) \<and>
         requests (issued event tr) = []"
proof -
  from assms have dat: "notification_data event = Inl e"
    by (simp add: notification_data_payload)
  from onPush_throw [OF dat] have thrown: "onPush event tr = (Inl e, tr)" .
  from issued_throw [OF thrown] have "requests (issued event tr) = []" by simp
  with dat thrown show ?thesis by simp
qed

theorem onPush_parse_failure_witness:
  "notification_data \<lparr>data = Some \<lparr>json = Inl SyntaxError\<rparr>\<rparr> = Inl SyntaxError \<and>
   onPush \<lparr>data = Some \<lparr>json = Inl SyntaxError\<rparr>\<rparr> [] = (Inl SyntaxError, []) \<and>
   requests (issued \<lparr>data = Some \<lparr>json = Inl SyntaxError\<rparr>\<rparr> []) = []"
  by (rule onPush_parse_failure [where d = "\<lparr>json = Inl SyntaxError\<rparr>"]) simp_all

section \<open>Title and body of the derived data\<close>

lemma has_title_and_body_iff:
  "has_title_and_body dat \<longleftrightarrow>
   (\<exists>fs t b. dat = JObj fs \<and> map_of fs ''title'' = Some t \<and> map_of fs ''body'' = Some b \<and>
      non_null t \<and> non_null b)"
  by (cases dat) (auto simp: has_title_and_body_def split: option.splits)

text \<open>
  Claim C4, as stated: the data derived in line 3 always has a non-null title and a
  non-null body, also when the payload is an object that omits one of them. It fails for
  the payload \<^verbatim>\<open>{}\<close>: the derived data is the empty object, and reading its title or
  its body yields \<^verbatim>\<open>undefined\<close>.
\<close>

theorem notification_data_fields_counterexample:
  "notification_data \<lparr>data = Some \<lparr>json = Inr (JObj [])\<rparr>\<rparr> = Inr (JObj []) \<and>
   get_property (JObj []) ''title'' = Inr JUndefined \<and>
   get_property (JObj []) ''body'' = Inr JUndefined \<and>
   \<not> has_title_and_body (JObj [])"
  by (simp add: notification_data_def has_title_and_body_def)

text \<open>
  Claim C4, amended. The data derived in line 3 has a non-null title and a non-null body
  exactly when the event carries no payload, or the payload parses to an object that has
  both fields with values other than \<^verbatim>\<open>null\<close> and \<^verbatim>\<open>undefined\<close>. A field that the
  payload object omits is \<^verbatim>\<open>undefined\<close> in the derived data: the read succeeds and
  yields \<^verbatim>\<open>undefined\<close>, neither \<^verbatim>\<open>null\<close> nor a default text.
\<close>

theorem notification_data_fields:
  assumes "notification_data event = Inr dat"
  shows "(has_title_and_body dat \<longleftrightarrow>
          data event = None \<or>
          (\<exists>d fs t b. data event = Some d \<and> json d = Inr (JObj fs) \<and>
             map_of fs ''title'' = Some t \<and> map_of fs ''body'' = Some b \<and>
             non_null t \<and> non_null b)) \<and>
         (data event = Some d \<and> json d = Inr (JObj fs) \<longrightarrow>
            (map_of fs ''title'' = None \<longrightarrow> get_property dat ''title'' = Inr JUndefined) \<and>
            (map_of fs ''body'' = None \<longrightarrow> get_property dat ''body'' = Inr JUndefined))"
proof
  show "has_title_and_body dat \<longleftrightarrow>
        data event = None \<or>
        (\<exists>d fs t b. data event = Some d \<and> json d = Inr (JObj fs) \<and>
           map_of fs ''title'' = Some t \<and> map_of fs ''body'' = Some b \<and>
           non_null t \<and> non_null b)"
  proof (cases "data event")
    case None
    with assms have "dat = JObj [(''title'', JStr ''Market Alert''),
                                 (''body'', JStr ''New Signal Detected!'')]"
      by (simp add: notification_data_def)
    with None show ?thesis by (simp add: has_title_and_body_def)
  next
    case (Some d')
    with assms have "json d' = Inr dat" by (simp add: notification_data_def)
    with Some show ?thesis by (auto simp: has_title_and_body_iff)
  qed
next
  show "data event = Some d \<and> json d = Inr (JObj fs) \<longrightarrow>
          (map_of fs ''title'' = None \<longrightarrow> get_property dat ''title'' = Inr JUndefined) \<and>
          (map_of fs ''body'' = None \<longrightarrow> get_property dat ''body'' = Inr JUndefined)"
  proof
    assume payload: "data event = Some d \<and> json d = Inr (JObj fs)"
    with assms have "dat = JObj fs" by (simp add: notification_data_def)
    then show "(map_of fs ''title'' = None \<longrightarrow> get_property dat ''title'' = Inr JUndefined) \<and>
               (map_of fs ''body'' = None \<longrightarrow> get_property dat ''body'' = Inr JUndefined)"
      by simp
  qed
qed

text \<open>
  The amended claim at three events: no payload; the payload
  \<^verbatim>\<open>{"title":"Gold Alert","body":"Up 2%"}\<close>, which has both fields; and the payload
  \<^verbatim>\<open>{"title":"Gold Alert"}\<close>, which omits the body.
\<close>

theorem notification_data_fields_witness:
  "has_title_and_body
     (JObj [(''title'', JStr ''Market Alert''), (''body'', JStr ''New Signal Detected!'')]) \<and>
   has_title_and_body (JObj [(''title'', JStr ''Gold Alert''), (''body'', JStr ''Up 2%'')]) \<and>
   \<not> has_title_and_body (JObj [(''title'', JStr ''Gold Alert'')]) \<and>
   get_property (JObj [(''title'', JStr ''Gold Alert'')]) ''body'' = Inr JUndefined"
proof -
  let ?none = "\<lparr>data = None\<rparr>"
  let ?fs2 = "[(''title'', JStr ''Gold Alert''), (''body'', JStr ''Up 2%'')]"
  let ?fs1 = "[(''title'', JStr ''Gold Alert'')]"
  let ?d2 = "\<lparr>json = Inr (JObj ?fs2)\<rparr>"
  let ?d1 = "\<lparr>json = Inr (JObj ?fs1)\<rparr>"
  have h0: "notification_data ?none =
     Inr (JObj [(''title'', JStr ''Market Alert''), (''body'', JStr ''New Signal Detected!'')])"
    by (simp add: notification_data_def)
  have h2: "notification_data \<lparr>data = Some ?d2\<rparr> = Inr (JObj ?fs2)"
    by (simp add: notification_data_def)
  have h1: "notification_data \<lparr>data = Some ?d1\<rparr> = Inr (JObj ?fs1)"
    by (simp add: notification_data_def)
  from notification_data_fields [OF h0, of ?d2 ?fs2]
  have c0: "has_title_and_body
     (JObj [(''title'', JStr ''Market Alert''), (''body'', JStr ''New Signal Detected!'')])"
    by simp
  from notification_data_fields [OF h2, of ?d2 ?fs2]
  have c2: "has_title_and_body (JObj ?fs2)"
    by simp
  from notification_data_fields [OF h1, of ?d1 ?fs1]
  have c1: "\<not> has_title_and_body (JObj ?fs1) \<and>
            get_property (JObj ?fs1) ''body'' = Inr JUndefined"
    by simp
  from c0 c2 c1 show ?thesis by simp
qed

section \<open>One display request\<close>

text \<open>
  Claim C5, as stated: every push event leads to exactly one display request. It fails for
  a payload that is not JSON: the listener throws and the log holds no request.
\<close>

theorem onPush_one_request_counterexample:
  "fst (onPush \<lparr>data = Some \<lparr>json = Inl SyntaxError\<rparr>\<rparr> []) = Inl SyntaxError \<and>
   length (requests (snd (onPush \<lparr>data = Some \<lparr>json = Inl SyntaxError\<rparr>\<rparr> []))) = 0"
  by (simp add: onPush_def notification_data_def)

text \<open>
  Claim C5, amended. When the data derived in line 3 is a value other than \<^verbatim>\<open>null\<close> and
  \<^verbatim>\<open>undefined\<close> (the event carries no payload, or its payload parses to such a value),
  the listener completes without a value and issues exactly one display request.
\<close>

theorem onPush_one_request:
  assumes "notification_data event = Inr dat" and "non_null dat"
  shows "fst (onPush event tr) = Inr () \<and> length (requests (issued event tr)) = 1"
proof -
  from get_property_non_null [OF assms(2)]
  obtain b where b: "get_property dat ''body'' = Inr b" by blast
  from get_property_non_null [OF assms(2)]
  obtain t where t: "get_property dat ''title'' = Inr t" by blast
  show ?thesis
    by (simp add: onPush_ok [OF assms(1) b t] issued_ok [OF assms(1) b t])
qed

theorem onPush_one_request_witness:
  "fst (onPush \<lparr>data = Some \<lparr>json = Inr (JObj [(''title'', JStr ''ETH Alert'')])\<rparr>\<rparr> []) = Inr () \<and>
   length (requests (issued
     \<lparr>data = Some \<lparr>json = Inr (JObj [(''title'', JStr ''ETH Alert'')])\<rparr>\<rparr> [])) = 1"
  by (rule onPush_one_request [where dat = "JObj [(''title'', JStr ''ETH Alert'')]"])
     (simp_all add: notification_data_def)

section \<open>Icon and badge\<close>

text \<open>
  Claim C6. Every display request issued by the listener has options whose icon and badge
  both are the URL \<^verbatim>\<open>https://cdn-icons-png.flaticon.com/512/2464/2464402.png\<close>, whatever
  the payload.
\<close>

theorem onPush_icon_badge:
  assumes "(title, opts) \<in> set (requests (issued event tr))"
  shows "icon opts = ''https://cdn-icons-png.flaticon.com/512/2464/2464402.png'' \<and>
         badge opts = ''https://cdn-icons-png.flaticon.com/512/2464/2464402.png''"
  using assms issued_cases [of event tr] by auto

theorem onPush_icon_badge_witness:
  "(JUndefined,
    \<lparr>body = JUndefined,
     icon = ''https://cdn-icons-png.flaticon.com/512/2464/2464402.png'',
     badge = ''https://cdn-icons-png.flaticon.com/512/2464/2464402.png''\<rparr>)
     \<in> set (requests (issued \<lparr>data = Some \<lparr>json = Inr (JBool True)\<rparr>\<rparr> [])) \<and>
   icon \<lparr>body = JUndefined,
         icon = ''https://cdn-icons-png.flaticon.com/512/2464/2464402.png'',
         badge = ''https://cdn-icons-png.flaticon.com/512/2464/2464402.png''\<rparr>
     = ''https://cdn-icons-png.flaticon.com/512/2464/2464402.png'' \<and>
   badge \<lparr>body = JUndefined,
          icon = ''https://cdn-icons-png.flaticon.com/512/2464/2464402.png'',
          badge = ''https://cdn-icons-png.flaticon.com/512/2464/2464402.png''\<rparr>
     = ''https://cdn-icons-png.flaticon.com/512/2464/2464402.png''"
proof -
  have h: "(JUndefined,
    \<lparr>body = JUndefined,
     icon = ''https://cdn-icons-png.flaticon.com/512/2464/2464402.png'',
     badge = ''https://cdn-icons-png.flaticon.com/512/2464/2464402.png''\<rparr>)
     \<in> set (requests (issued \<lparr>data = Some \<lparr>json = Inr (JBool True)\<rparr>\<rparr> []))"
    by (simp add: issued_def onPush_unfold notification_data_def)
  from h onPush_icon_badge [OF h] show ?thesis by blast
qed

section \<open>Lifetime extension\<close>

text \<open>
  Claim C7, as stated: every run of the listener calls \<^verbatim>\<open>event.waitUntil\<close> exactly once.
  It fails for the payload \<^verbatim>\<open>null\<close>: reading \<^verbatim>\<open>data.body\<close> throws a TypeError and
  \<^verbatim>\<open>waitUntil\<close> is never called.
\<close>

theorem onPush_one_extension_counterexample:
  "fst (onPush \<lparr>data = Some \<lparr>json = Inr JNull\<rparr>\<rparr> []) = Inl TypeError \<and>
   length (extensions (snd (onPush \<lparr>data = Some \<lparr>json = Inr JNull\<rparr>\<rparr> []))) = 0"
  by (simp add: onPush_def notification_data_def notification_options_def)

text \<open>
  Claim C7, amended. When the data derived in line 3 is a value other than \<^verbatim>\<open>null\<close> and
  \<^verbatim>\<open>undefined\<close> (the event carries no payload, or its payload parses to such a value),
  the listener calls \<^verbatim>\<open>event.waitUntil\<close> exactly once, with the promise that its call of
  \<^verbatim>\<open>showNotification\<close> returned.
\<close>

theorem onPush_one_extension:
  assumes "notification_data event = Inr dat" and "non_null dat"
  shows "\<exists>title opts p tr1.
           showNotification title opts tr = (p, tr1) \<and>
           snd (onPush event tr) = waitUntil p tr1 \<and>
           extensions (issued event tr) = [p]"
proof -
  from get_property_non_null [OF assms(2)]
  obtain b where b: "get_property dat ''body'' = Inr b" by blast
  from get_property_non_null [OF assms(2)]
  obtain t where t: "get_property dat ''title'' = Inr t" by blast
  let ?opts = "\<lparr>body = b,
                icon = ''https://cdn-icons-png.flaticon.com/512/2464/2464402.png'',
                badge = ''https://cdn-icons-png.flaticon.com/512/2464/2464402.png''\<rparr>"
  have "showNotification t ?opts tr = (Promise (length tr), tr @ [ShowNotification t ?opts])"
    by (simp add: showNotification_def)
  moreover have "snd (onPush event tr) =
      waitUntil (Promise (length tr)) (tr @ [ShowNotification t ?opts])"
    by (simp add: onPush_ok [OF assms(1) b t] waitUntil_def)
  moreover have "extensions (issued event tr) = [Promise (length tr)]"
    by (simp add: issued_ok [OF assms(1) b t])
  ultimately show ?thesis by blast
qed

theorem onPush_one_extension_witness:
  "\<exists>title opts p tr1.
     showNotification title opts [] = (p, tr1) \<and>
     snd (onPush \<lparr>data = Some \<lparr>json = Inr (JStr ''sell'')\<rparr>\<rparr> []) = waitUntil p tr1 \<and>
     extensions (issued \<lparr>data = Some \<lparr>json = Inr (JStr ''sell'')\<rparr>\<rparr> []) = [p]"
  by (rule onPush_one_extension [where dat = "JStr ''sell''"])
     (simp_all add: notification_data_def)

section \<open>Payload object without a title or a body\<close>

text \<open>
  Claim C8. When the payload parses to an object, one display request is issued all the
  same; where the object has no \<^verbatim>\<open>title\<close> the request carries the title
  \<^verbatim>\<open>undefined\<close>, and where it has no \<^verbatim>\<open>body\<close> the options body is \<^verbatim>\<open>undefined\<close>. The
  default texts are not filled in field by field.
\<close>

theorem onPush_missing_field:
  assumes "data event = Some d" and "json d = Inr (JObj fs)"
  shows "fst (onPush event tr) = Inr () \<and>
         length (requests (issued event tr)) = 1 \<and>
         (map_of fs ''title'' = None \<longrightarrow>
            map fst (requests (issued event tr)) = [JUndefined]) \<and>
         (map_of fs ''body'' = None \<longrightarrow>
            map (body \<circ> snd) (requests (issued event tr)) = [JUndefined])"
proof -
  from assms have dat: "notification_data event = Inr (JObj fs)"
    by (simp add: notification_data_payload)
  have b: "get_property (JObj fs) ''body'' =
           Inr (case map_of fs ''body'' of None \<Rightarrow> JUndefined | Some v \<Rightarrow> v)"
    by simp
  have t: "get_property (JObj fs) ''title'' =
           Inr (case map_of fs ''title'' of None \<Rightarrow> JUndefined | Some v \<Rightarrow> v)"
    by simp
  show ?thesis
    by (simp add: onPush_ok [OF dat b t] issued_ok [OF dat b t])
qed

theorem onPush_missing_field_witness:
  "fst (onPush \<lparr>data = Some \<lparr>json = Inr (JObj [(''price'', JStr ''50k'')])\<rparr>\<rparr> []) = Inr () \<and>
   length (requests (issued
     \<lparr>data = Some \<lparr>json = Inr (JObj [(''price'', JStr ''50k'')])\<rparr>\<rparr> [])) = 1 \<and>
   map fst (requests (issued
     \<lparr>data = Some \<lparr>json = Inr (JObj [(''price'', JStr ''50k'')])\<rparr>\<rparr> [])) = [JUndefined] \<and>
   map (body \<circ> snd) (requests (issued
     \<lparr>data = Some \<lparr>json = Inr (JObj [(''price'', JStr ''50k'')])\<rparr>\<rparr> [])) = [JUndefined]"
  using onPush_missing_field
    [of "\<lparr>data = Some \<lparr>json = Inr (JObj [(''price'', JStr ''50k'')])\<rparr>\<rparr>"
        "\<lparr>json = Inr (JObj [(''price'', JStr ''50k'')])\<rparr>"
        "[(''price'', JStr ''50k'')]" "[]"]
  by simp

section \<open>Payload that is JSON and not an object\<close>

text \<open>
  Claim C9. There is a push event whose payload is valid JSON and not an object, the text
  \<^verbatim>\<open>null\<close>, on which the listener throws a TypeError when it reads the fields, so that
  neither a display request nor a lifetime extension is issued.
\<close>

theorem onPush_null_payload:
  "\<exists>event :: pushEvent. \<exists>d.
     data event = Some d \<and> json d = Inr JNull \<and>
     (\<forall>tr. onPush event tr = (Inl TypeError, tr) \<and>
           requests (issued event tr) = [] \<and> extensions (issued event tr) = [])"
proof -
  let ?d = "\<lparr>json = Inr JNull\<rparr>"
  let ?event = "\<lparr>data = Some ?d\<rparr>"
  have dat: "notification_data ?event = Inr JNull"
    by (simp add: notification_data_def)
  have thrown: "onPush ?event tr = (Inl TypeError, tr)" for tr
    by (rule onPush_null [OF dat]) simp
  have "data ?event = Some ?d" and "json ?d = Inr JNull" by simp_all
  moreover have "\<forall>tr. onPush ?event tr = (Inl TypeError, tr) \<and>
           requests (issued ?event tr) = [] \<and> extensions (issued ?event tr) = []"
    by (simp add: thrown issued_throw [OF thrown])
  ultimately show ?thesis by blast
qed

section \<open>Determinism\<close>

text \<open>
  Claim C10. Two runs of the listener on events with equal payloads, or both without one,
  end alike and issue display requests with the same titles and the same options, whatever
  else the events hold and whatever the host's log held before.
\<close>

theorem onPush_deterministic:
  assumes "data e1 = data e2"
  shows "fst (onPush e1 tr1) = fst (onPush e2 tr2) \<and>
         requests (issued e1 tr1) = requests (issued e2 tr2)"
proof -
  from assms have "notification_data e1 = notification_data e2"
    by (simp add: notification_data_def)
  then show ?thesis
    by (simp add: issued_def onPush_unfold split: sum.split)
qed

theorem onPush_deterministic_witness:
  "fst (onPush \<lparr>data = Some \<lparr>json = Inr (JObj [(''body'', JStr ''Buy'')])\<rparr>\<rparr> []) =
   fst (onPush \<lparr>data = Some \<lparr>json = Inr (JObj [(''body'', JStr ''Buy'')])\<rparr>, \<dots> = True\<rparr>
          [WaitUntil (Promise 7)]) \<and>
   requests (issued \<lparr>data = Some \<lparr>json = Inr (JObj [(''body'', JStr ''Buy'')])\<rparr>\<rparr> []) =
   requests (issued \<lparr>data = Some \<lparr>json = Inr (JObj [(''body'', JStr ''Buy'')])\<rparr>, \<dots> = True\<rparr>
               [WaitUntil (Promise 7)])"
  by (rule onPush_deterministic) simp

end
